theory Spec2Isabelle
  imports Main
begin

section \<open>The skin object runtime: Group (container) objects\<close>

text \<open>
  A shallow embedding of \<^verbatim>\<open>packages/webamp-modern-2/src/skin/Group.ts\<close>.

  Objects are reached through references. A reference of static type \<^verbatim>\<open>GuiObj\<close>
  carries the dynamic class of the object it denotes (a \<^verbatim>\<open>Group\<close>, or any other
  UI object), so a virtual call is a case distinction on the reference. System
  objects are not UI objects and live in a store of their own.

  A field declared without an initialiser (\<^verbatim>\<open>_instanceId: string;\<close>) holds
  \<^verbatim>\<open>undefined\<close> until it is assigned: such a field is an \<open>option\<close>, with
  \<open>None\<close> for \<^verbatim>\<open>undefined\<close>.

  Strings are byte strings. \<^verbatim>\<open>toLowerCase\<close> maps the letters \<^verbatim>\<open>A\<close> to
  \<^verbatim>\<open>Z\<close> to \<^verbatim>\<open>a\<close> to \<^verbatim>\<open>z\<close> and leaves every other character as it is,
  which is what \<^verbatim>\<open>String.prototype.toLowerCase\<close> does on ASCII text (attribute
  keys and identifiers of a skin). A capital letter has the codes 65 to 90 and its small
  letter is 32 higher, which sets the bit \<open>b5\<close> of the code.
\<close>

subsection \<open>Strings\<close>

fun toLowerCase_char :: "char \<Rightarrow> char" where
  "toLowerCase_char (Char b0 b1 b2 b3 b4 b5 b6 b7) =
     (let n = (of_char (Char b0 b1 b2 b3 b4 b5 b6 b7) :: nat)
      in if 65 \<le> n \<and> n \<le> 90 then Char b0 b1 b2 b3 b4 True b6 b7
         else Char b0 b1 b2 b3 b4 b5 b6 b7)"

definition toLowerCase :: "string \<Rightarrow> string" where
  "toLowerCase s = map toLowerCase_char s"

text \<open>\<^verbatim>\<open>Array.prototype.join\<close>: the elements separated by \<open>sep\<close>.\<close>

fun join :: "string \<Rightarrow> string list \<Rightarrow> string" where
  "join sep [] = []"
| "join sep [x] = x"
| "join sep (x # y # ys) = x @ sep @ join sep (y # ys)"

text \<open>
  How a possibly \<^verbatim>\<open>undefined\<close> string is rendered: \<^verbatim>\<open>join\<close> writes an
  \<^verbatim>\<open>undefined\<close> element as the empty string, a template literal writes it as
  \<^verbatim>\<open>undefined\<close>.
\<close>

definition join_element :: "string option \<Rightarrow> string" where
  "join_element v = (case v of None \<Rightarrow> [] | Some s \<Rightarrow> s)"

definition template_string :: "string option \<Rightarrow> string" where
  "template_string v = (case v of None \<Rightarrow> ''undefined'' | Some s \<Rightarrow> s)"

text \<open>Truthiness of a possibly \<^verbatim>\<open>undefined\<close> string: the empty string is falsy.\<close>

definition truthy :: "string option \<Rightarrow> bool" where
  "truthy v = (case v of None \<Rightarrow> False | Some s \<Rightarrow> s \<noteq> [])"

subsection \<open>Data model\<close>

type_synonym addr = nat

text \<open>What a \<^verbatim>\<open>throw\<close> carries: \<^verbatim>\<open>new Error(message)\<close>.\<close>

datatype thrown = Error string

text \<open>A reference to a UI object, tagged with the class of the object.\<close>

datatype ref = GroupRef addr | GuiObjRef addr

text \<open>
  The base class \<^verbatim>\<open>GuiObj\<close>. \<^verbatim>\<open>Group.ts\<close> reads its field \<^verbatim>\<open>_id\<close> (here
  \<open>id_f\<close>); all its other fields are \<open>other\<close>.
\<close>

record 'x guiobj =
  id_f :: "string option"
  other :: 'x

text \<open>
  The class \<^verbatim>\<open>Group extends GuiObj\<close>: the inherited part is \<open>base\<close>, the fields
  follow the declaration. \<open>'n\<close> is the type of the numbers \<^verbatim>\<open>Utils.num\<close> returns.
\<close>

record ('x, 'n) group =
  base :: "'x guiobj"
  instanceId :: "string option"
  background :: "string option"
  desktopAlpha :: "bool option"
  drawBackground :: "bool option"
  minimumHeight :: "'n option"
  maximumHeight :: "'n option"
  minimumWidth :: "'n option"
  maximumWidth :: "'n option"
  systemObjects :: "addr list"
  children :: "ref list"

text \<open>
  Modelled from the spec: the class \<^verbatim>\<open>SystemObject\<close> is not among the sources. The
  spec gives it a back-reference to its owning container and no render target.
\<close>

record sysobject =
  parentGroup :: "addr option"

text \<open>The store: the objects of each class, by address.\<close>

record ('x, 'n) world =
  groups :: "addr \<Rightarrow> ('x, 'n) group"
  guiobjs :: "addr \<Rightarrow> 'x guiobj"
  sysobjs :: "addr \<Rightarrow> sysobject"

text \<open>
  \<^verbatim>\<open>new Group()\<close>: the two arrays start empty, every other field is
  \<^verbatim>\<open>undefined\<close>. The argument is the state of the base class's remaining fields.
\<close>

definition new_Group :: "'x \<Rightarrow> ('x, 'n) group" where
  "new_Group x =
     \<lparr> base = \<lparr> id_f = None, other = x \<rparr>,
       instanceId = None, background = None, desktopAlpha = None, drawBackground = None,
       minimumHeight = None, maximumHeight = None, minimumWidth = None, maximumWidth = None,
       systemObjects = [], children = [] \<rparr>"

subsection \<open>Code of the repository that Group.ts calls and that is not among the sources\<close>

text \<open>
  \<^verbatim>\<open>GuiObj.setXmlAttr\<close>, \<^verbatim>\<open>GuiObj.draw\<close>, \<^verbatim>\<open>Utils.toBool\<close>, \<^verbatim>\<open>Utils.num\<close>,
  \<^verbatim>\<open>Utils.px\<close>, \<^verbatim>\<open>UI_ROOT.getBitmap\<close> and the bitmap's
  \<^verbatim>\<open>getBackgrondCSSAttribute\<close> are parameters of the model. A method of the base class
  acts on the base part of the receiver. A call that may throw returns the thrown value
  as \<open>Inl\<close>; the state of the receiver after the call is returned in both cases, since
  fields assigned before a \<^verbatim>\<open>throw\<close> stay assigned.
\<close>

record ('x, 'n, 'b) deps =
  GuiObj_setXmlAttr :: "string \<Rightarrow> string \<Rightarrow> 'x guiobj \<Rightarrow> (thrown + bool) \<times> 'x guiobj"
  GuiObj_draw :: "'x guiobj \<Rightarrow> 'x guiobj"
  Utils_toBool :: "string \<Rightarrow> thrown + bool"
  Utils_num :: "string \<Rightarrow> thrown + 'n"
  Utils_px :: "'n option \<Rightarrow> string"
  UI_ROOT_getBitmap :: "string \<Rightarrow> 'b"
  getBackgrondCSSAttribute :: "'b \<Rightarrow> string"

subsection \<open>setXmlAttr\<close>

text \<open>The labels of the \<^verbatim>\<open>switch\<close>, in the order of the source.\<close>

definition Group_keys :: "string list" where
  "Group_keys = [''instance_id'', ''background'', ''drawbackground'',
                 ''minimum_h'', ''minimum_w'', ''maximum_h'', ''maximum_w'']"

definition setXmlAttr ::
  "('x, 'n, 'b) deps \<Rightarrow> string \<Rightarrow> string \<Rightarrow> ('x, 'n) group \<Rightarrow> (thrown + bool) \<times> ('x, 'n) group"
where
  "setXmlAttr D key0 val g =
     (let key = toLowerCase key0;
          (handled, b) = GuiObj_setXmlAttr D key val (base g);
          g1 = g\<lparr>base := b\<rparr>
      in case handled of
           Inl e \<Rightarrow> (Inl e, g1)
         | Inr True \<Rightarrow> (Inr True, g1)
         | Inr False \<Rightarrow>
             if key = ''instance_id'' then (Inr True, g1\<lparr>instanceId := Some val\<rparr>)
             else if key = ''background'' then (Inr True, g1\<lparr>background := Some val\<rparr>)
             else if key = ''drawbackground'' then
               (case Utils_toBool D val of
                  Inl e \<Rightarrow> (Inl e, g1)
                | Inr v \<Rightarrow> (Inr True, g1\<lparr>drawBackground := Some v\<rparr>))
             else if key = ''minimum_h'' then
               (case Utils_num D val of
                  Inl e \<Rightarrow> (Inl e, g1)
                | Inr v \<Rightarrow> (Inr True, g1\<lparr>minimumHeight := Some v\<rparr>))
             else if key = ''minimum_w'' then
               (case Utils_num D val of
                  Inl e \<Rightarrow> (Inl e, g1)
                | Inr v \<Rightarrow> (Inr True, g1\<lparr>minimumWidth := Some v\<rparr>))
             else if key = ''maximum_h'' then
               (case Utils_num D val of
                  Inl e \<Rightarrow> (Inl e, g1)
                | Inr v \<Rightarrow> (Inr True, g1\<lparr>maximumHeight := Some v\<rparr>))
             else if key = ''maximum_w'' then
               (case Utils_num D val of
                  Inl e \<Rightarrow> (Inl e, g1)
                | Inr v \<Rightarrow> (Inr True, g1\<lparr>maximumWidth := Some v\<rparr>))
             else (Inr False, g1))"

subsection \<open>getId\<close>

text \<open>\<^verbatim>\<open>this._instanceId || this._id\<close>: the left operand when it is truthy.\<close>

definition getId :: "('x, 'n) group \<Rightarrow> string option" where
  "getId g = (if truthy (instanceId g) then instanceId g else id_f (base g))"

text \<open>
  Modelled from the spec: \<^verbatim>\<open>GuiObj.getId\<close> is not among the sources. The spec gives a
  UI object its declared identifier as identity, overridden by an instance id on
  containers only.
\<close>

definition GuiObj_getId :: "'x guiobj \<Rightarrow> string option" where
  "GuiObj_getId b = id_f b"

text \<open>The virtual call \<^verbatim>\<open>obj.getId()\<close> on a child.\<close>

definition getId_of :: "('x, 'n) world \<Rightarrow> ref \<Rightarrow> string option" where
  "getId_of w r =
     (case r of GroupRef a \<Rightarrow> getId (groups w a) | GuiObjRef a \<Rightarrow> GuiObj_getId (guiobjs w a))"

subsection \<open>getobject\<close>

text \<open>
  The \<^verbatim>\<open>for\<close> loop with its early \<^verbatim>\<open>return\<close>: the first child of the array
  whose \<^verbatim>\<open>getId()\<close> is strictly equal to \<open>lower\<close>, if there is one.
\<close>

fun getobject_loop :: "('x, 'n) world \<Rightarrow> string \<Rightarrow> ref list \<Rightarrow> ref option" where
  "getobject_loop w lower [] = None"
| "getobject_loop w lower (obj # objs) =
     (if getId_of w obj = Some lower then Some obj else getobject_loop w lower objs)"

text \<open>The message of the error; \<open>CHR 0x22\<close> is the double quote.\<close>

definition getobject_message :: "string \<Rightarrow> string option \<Rightarrow> string \<Rightarrow> string" where
  "getobject_message objectId thisId foundIds =
     ''Could not find an object with the id: '' @ [CHR 0x22] @ objectId @ [CHR 0x22] @
     '' within object '' @ [CHR 0x22] @ template_string thisId @ [CHR 0x22] @
     ''. Only found: '' @ foundIds"

definition getobject :: "('x, 'n) world \<Rightarrow> ('x, 'n) group \<Rightarrow> string \<Rightarrow> thrown + ref" where
  "getobject w g objectId =
     (let lower = toLowerCase objectId in
      case getobject_loop w lower (children g) of
        Some obj \<Rightarrow> Inr obj
      | None \<Rightarrow>
          (let foundIds = join '', '' (map (\<lambda>child. join_element (getId_of w child)) (children g))
           in Inl (Error (getobject_message objectId (getId g) foundIds))))"

subsection \<open>init\<close>

text \<open>
  The calls a method makes on other objects are recorded, in the order in which they are
  made, at the end of a log. A recorded call has returned before the next one is made
  (the code is synchronous); what the callee does is not part of this model, and the
  arrays of the receiver are those at the entry of the method.
\<close>

datatype 'c call =
    SystemObject_init addr 'c
  | GuiObj_init ref 'c

definition init :: "('x, 'n) group \<Rightarrow> 'c \<Rightarrow> 'c call list \<Rightarrow> 'c call list" where
  "init g ctx log =
     (let log1 = fold (\<lambda>systemObject l. l @ [SystemObject_init systemObject ctx])
                   (systemObjects g) log
      in fold (\<lambda>child l. l @ [GuiObj_init child ctx]) (children g) log1)"

subsection \<open>addSystemObject, addChild\<close>

text \<open>
  Modelled from the spec: \<^verbatim>\<open>SystemObject.setParentGroup\<close> is not among the sources.
  The spec has the system object hold a back-reference to its owning container, the
  last assignment winning.
\<close>

definition SystemObject_setParentGroup ::
  "addr \<Rightarrow> addr \<Rightarrow> ('x, 'n) world \<Rightarrow> ('x, 'n) world"
where
  "SystemObject_setParentGroup systemObj grp w =
     w\<lparr>sysobjs := (sysobjs w)(systemObj := (sysobjs w systemObj)\<lparr>parentGroup := Some grp\<rparr>)\<rparr>"

definition addSystemObject :: "addr \<Rightarrow> addr \<Rightarrow> ('x, 'n) world \<Rightarrow> ('x, 'n) world" where
  "addSystemObject this systemObj w =
     (let w1 = SystemObject_setParentGroup systemObj this w;
          g = groups w1 this
      in w1\<lparr>groups := (groups w1)(this := g\<lparr>systemObjects := systemObjects g @ [systemObj]\<rparr>)\<rparr>)"

definition addChild :: "addr \<Rightarrow> ref \<Rightarrow> ('x, 'n) world \<Rightarrow> ('x, 'n) world" where
  "addChild this child w =
     (let g = groups w this
      in w\<lparr>groups := (groups w)(this := g\<lparr>children := children g @ [child]\<rparr>)\<rparr>)"

subsection \<open>draw\<close>

text \<open>
  What \<^verbatim>\<open>draw\<close> does to the render target \<^verbatim>\<open>this._div\<close> and the calls it makes,
  in the order of the source. \<open>Div_appendChild child\<close> is
  \<^verbatim>\<open>this._div.appendChild(child.getDiv())\<close>: the handle appended is the child's.
\<close>

datatype effect =
    Super_draw
  | Div_setAttribute string string
  | Div_style_height string
  | Div_style_width string
  | Call_getBitmap string
  | Div_style_background string
  | Child_draw ref
  | Div_appendChild ref

definition draw ::
  "('x, 'n, 'b) deps \<Rightarrow> ('x, 'n) group \<Rightarrow> effect list \<Rightarrow> ('x, 'n) group \<times> effect list"
where
  "draw D g log =
     (let g1 = g\<lparr>base := GuiObj_draw D (base g)\<rparr>;
          log1 = log @ [Super_draw];
          log2 = log1 @ [Div_setAttribute ''data-obj-name'' ''Group''];
          log3 = log2 @ [Div_style_height (Utils_px D (maximumHeight g1))];
          log4 = log3 @ [Div_style_width (Utils_px D (maximumWidth g1))];
          log5 = (case background g1 of
                    None \<Rightarrow> log4
                  | Some bg \<Rightarrow>
                      if drawBackground g1 = Some True then
                        (let bitmap = UI_ROOT_getBitmap D bg
                         in log4 @ [Call_getBitmap bg,
                                    Div_style_background (getBackgrondCSSAttribute D bitmap)])
                      else log4)
      in (g1, fold (\<lambda>child l. l @ [Child_draw child, Div_appendChild child]) (children g1) log5))"

text \<open>The handles appended to the render target, in the order of the log.\<close>

fun appended :: "effect list \<Rightarrow> ref list" where
  "appended [] = []"
| "appended (Div_appendChild r # es) = r # appended es"
| "appended (e # es) = appended es"

subsection \<open>An instance of the parameters and a small skin\<close>

text \<open>
  For evaluating the model on concrete inputs: a base class that knows the key
  \<^verbatim>\<open>id\<close> only, booleans written \<^verbatim>\<open>0\<close> and \<^verbatim>\<open>1\<close>, numbers kept as their
  digits, and bitmaps named by their reference.
\<close>

definition sample_GuiObj_setXmlAttr ::
  "string \<Rightarrow> string \<Rightarrow> unit guiobj \<Rightarrow> (thrown + bool) \<times> unit guiobj"
where
  "sample_GuiObj_setXmlAttr key val b =
     (if key = ''id'' then (Inr True, b\<lparr>id_f := Some (toLowerCase val)\<rparr>) else (Inr False, b))"

definition sample_toBool :: "string \<Rightarrow> thrown + bool" where
  "sample_toBool s =
     (if s = ''1'' then Inr True else if s = ''0'' then Inr False
      else Inl (Error ''Expected bool''))"

definition sample_num :: "string \<Rightarrow> thrown + string" where
  "sample_num s =
     (if s \<noteq> [] \<and> list_all (\<lambda>c. 48 \<le> (of_char c :: nat) \<and> (of_char c :: nat) \<le> 57) s
      then Inr s else Inl (Error ''Expected number''))"

definition sample_px :: "string option \<Rightarrow> string" where
  "sample_px n = (case n of None \<Rightarrow> [] | Some s \<Rightarrow> s @ ''px'')"

definition sample_deps :: "(unit, string, string) deps" where
  "sample_deps =
     \<lparr> GuiObj_setXmlAttr = sample_GuiObj_setXmlAttr,
       GuiObj_draw = (\<lambda>b. b),
       Utils_toBool = sample_toBool,
       Utils_num = sample_num,
       Utils_px = sample_px,
       UI_ROOT_getBitmap = (\<lambda>r. r),
       getBackgrondCSSAttribute = (\<lambda>b. ''url('' @ b @ '')'') \<rparr>"

text \<open>The same instance with a base class that handles every key itself.\<close>

definition sample_deps_base_handles_all :: "(unit, string, string) deps" where
  "sample_deps_base_handles_all =
     sample_deps\<lparr>GuiObj_setXmlAttr := (\<lambda>key val b. (Inr True, b))\<rparr>"

text \<open>A UI object and a group with a declared id.\<close>

definition sample_guiobj :: "string \<Rightarrow> unit guiobj" where
  "sample_guiobj i = \<lparr> id_f = Some i, other = () \<rparr>"

definition sample_group :: "string \<Rightarrow> (unit, string) group" where
  "sample_group i = (new_Group ())\<lparr>base := sample_guiobj i\<rparr>"

text \<open>
  The group \<^verbatim>\<open>main\<close> (at address 6) has the children \<^verbatim>\<open>play\<close>, \<^verbatim>\<open>stop\<close>,
  the group \<^verbatim>\<open>panel\<close> (at address 7) and a second \<^verbatim>\<open>stop\<close>; \<^verbatim>\<open>panel\<close> has
  the child \<^verbatim>\<open>deep\<close>. No system object is attached yet.
\<close>

definition sample_main :: "(unit, string) group" where
  "sample_main = (sample_group ''main'')
     \<lparr>children := [GuiObjRef 2, GuiObjRef 3, GroupRef 7, GuiObjRef 5]\<rparr>"

definition sample_panel :: "(unit, string) group" where
  "sample_panel = (sample_group ''panel'')\<lparr>children := [GuiObjRef 4]\<rparr>"

definition sample_world :: "(unit, string) world" where
  "sample_world =
     \<lparr> groups = (\<lambda>a. new_Group ())(6 := sample_main, 7 := sample_panel),
       guiobjs = (\<lambda>a. \<lparr> id_f = None, other = () \<rparr>)
                  (2 := sample_guiobj ''play'', 3 := sample_guiobj ''stop'',
                   4 := sample_guiobj ''deep'', 5 := sample_guiobj ''stop''),
       sysobjs = (\<lambda>a. \<lparr> parentGroup = None \<rparr>) \<rparr>"

text \<open>
  The sample skin after the system objects at the addresses 8 and 9 have been attached
  to \<^verbatim>\<open>main\<close>, in this order.
\<close>

definition sample_wired :: "(unit, string) world" where
  "sample_wired = addSystemObject 6 9 (addSystemObject 6 8 sample_world)"

text \<open>A group with the first three children of \<^verbatim>\<open>main\<close>.\<close>

definition sample_three :: "(unit, string) group" where
  "sample_three = sample_main\<lparr>children := [GuiObjRef 2, GuiObjRef 3, GroupRef 7]\<rparr>"

text \<open>
  The sample skin with one more child of \<^verbatim>\<open>main\<close>: a group declared as
  \<^verbatim>\<open>controls\<close>, at address 10, on which the attribute \<^verbatim>\<open>instance_id\<close> has been
  set to \<^verbatim>\<open>Player\<close>.
\<close>

definition sample_player :: "(unit, string) group" where
  "sample_player = snd (setXmlAttr sample_deps ''instance_id'' ''Player'' (sample_group ''controls''))"

definition sample_world_player :: "(unit, string) world" where
  "sample_world_player =
     addChild 6 (GroupRef 10) (sample_world\<lparr>groups := (groups sample_world)(10 := sample_player)\<rparr>)"

section \<open>Properties\<close>

subsection \<open>Evaluation of the sample skin\<close>

lemma toLowerCase_instance_id: "toLowerCase ''instance_id'' = ''instance_id''"
  by (simp add: toLowerCase_def)

lemma sample_base_not_handled:
  "key \<noteq> ''id'' \<Longrightarrow> GuiObj_setXmlAttr sample_deps key val b = (Inr False, b)"
  by (simp add: sample_deps_def sample_GuiObj_setXmlAttr_def)

lemma sample_main_fields:
  "base sample_main = sample_guiobj ''main''"
  "instanceId sample_main = None"
  "children sample_main = [GuiObjRef 2, GuiObjRef 3, GroupRef 7, GuiObjRef 5]"
  "systemObjects sample_main = []"
  by (simp_all add: sample_main_def sample_group_def new_Group_def)

lemma sample_ids:
  "getId_of sample_world (GuiObjRef 2) = Some ''play''"
  "getId_of sample_world (GuiObjRef 3) = Some ''stop''"
  "getId_of sample_world (GroupRef 7) = Some ''panel''"
  "getId_of sample_world (GuiObjRef 5) = Some ''stop''"
  "getId_of sample_world (GuiObjRef 4) = Some ''deep''"
  by (simp_all add: getId_of_def GuiObj_getId_def getId_def truthy_def sample_world_def
      sample_guiobj_def sample_panel_def sample_group_def new_Group_def)

lemma sample_panel_children: "children (groups sample_world 7) = [GuiObjRef 4]"
  by (simp add: sample_world_def sample_panel_def)

lemma toLowerCase_samples:
  "toLowerCase ''STOP'' = ''stop''" "toLowerCase ''stop'' = ''stop''"
  "toLowerCase ''pause'' = ''pause''" "toLowerCase ''Deep'' = ''deep''"
  by (simp_all add: toLowerCase_def)

lemma sample_utils:
  "Utils_toBool sample_deps ''1'' = Inr True"
  "Utils_num sample_deps ''10'' = Inr ''10''"
  "Utils_num sample_deps ''20'' = Inr ''20''"
  "Utils_num sample_deps ''50'' = Inr ''50''"
  "Utils_num sample_deps ''200'' = Inr ''200''"
  by (simp_all add: sample_deps_def sample_toBool_def sample_num_def)

lemma sample_wired_main:
  "systemObjects (groups sample_wired 6) = [8, 9]"
  "children (groups sample_wired 6) = [GuiObjRef 2, GuiObjRef 3, GroupRef 7, GuiObjRef 5]"
  by (simp_all add: sample_wired_def addSystemObject_def SystemObject_setParentGroup_def
      sample_world_def sample_main_fields)

lemma sample_three_fields:
  "children sample_three = [GuiObjRef 2, GuiObjRef 3, GroupRef 7]"
  "background sample_three = None"
  "maximumHeight sample_three = None"
  "maximumWidth sample_three = None"
  by (simp_all add: sample_three_def sample_main_def sample_group_def new_Group_def)

lemma sample_px_None: "Utils_px sample_deps None = []"
  by (simp add: sample_deps_def sample_px_def)

subsection \<open>getId\<close>

lemma setXmlAttr_instance_id:
  assumes "GuiObj_setXmlAttr D (toLowerCase k) v (base g) = (Inr False, b)"
    and "toLowerCase k = ''instance_id''"
  shows "setXmlAttr D k v g = (Inr True, g\<lparr>base := b, instanceId := Some v\<rparr>)"
  using assms by (simp add: setXmlAttr_def)

text \<open>
  C8, as amended. \<^verbatim>\<open>getId()\<close> returns the instance id when one has been set to a
  string that is not empty, and the declared id when the instance id is unset or the
  empty string. An instance id is set by the attribute \<^verbatim>\<open>instance_id\<close>, when the
  base class does not handle that key: afterwards \<^verbatim>\<open>getId()\<close> returns the value of
  the attribute if it is not empty, and the declared id if it is.
\<close>

theorem getId_instance_id_else_id:
  "(instanceId g = Some s \<and> s \<noteq> [] \<longrightarrow> getId g = Some s) \<and>
   (instanceId g = None \<or> instanceId g = Some [] \<longrightarrow> getId g = id_f (base g)) \<and>
   (GuiObj_setXmlAttr D (toLowerCase k) v (base g) = (Inr False, b) \<and>
      toLowerCase k = ''instance_id'' \<longrightarrow>
      getId (snd (setXmlAttr D k v g)) = (if v \<noteq> [] then Some v else id_f b))"
proof (intro conjI impI)
  assume "instanceId g = Some s \<and> s \<noteq> []"
  then show "getId g = Some s"
    by (simp add: getId_def truthy_def)
next
  assume "instanceId g = None \<or> instanceId g = Some []"
  then show "getId g = id_f (base g)"
    by (auto simp: getId_def truthy_def)
next
  assume h: "GuiObj_setXmlAttr D (toLowerCase k) v (base g) = (Inr False, b) \<and>
    toLowerCase k = ''instance_id''"
  then have "GuiObj_setXmlAttr D (toLowerCase k) v (base g) = (Inr False, b)"
    and "toLowerCase k = ''instance_id''"
    by blast+
  then have "setXmlAttr D k v g = (Inr True, g\<lparr>base := b, instanceId := Some v\<rparr>)"
    by (rule setXmlAttr_instance_id)
  then show "getId (snd (setXmlAttr D k v g)) = (if v \<noteq> [] then Some v else id_f b)"
    by (simp add: getId_def truthy_def)
qed

text \<open>
  The amended statement on the sample group \<^verbatim>\<open>main\<close>: with the instance id
  \<^verbatim>\<open>Player\<close> set by the attribute, \<^verbatim>\<open>getId()\<close> is \<^verbatim>\<open>Player\<close>; with no instance
  id it is \<^verbatim>\<open>main\<close>.
\<close>

theorem getId_instance_id_else_id_witness:
  "getId (snd (setXmlAttr sample_deps ''instance_id'' ''Player'' sample_main)) = Some ''Player'' \<and>
   instanceId sample_main = None \<and> getId sample_main = Some ''main''"
proof -
  have b: "GuiObj_setXmlAttr sample_deps (toLowerCase ''instance_id'') ''Player'' (base sample_main)
      = (Inr False, base sample_main)"
    by (simp add: toLowerCase_instance_id sample_base_not_handled)
  have n: "instanceId sample_main = None"
    by (simp add: sample_main_fields)
  have i: "id_f (base sample_main) = Some ''main''"
    by (simp add: sample_main_fields sample_guiobj_def)
  from getId_instance_id_else_id
    [of sample_main "''Player''" sample_deps "''instance_id''" "''Player''" "base sample_main"]
    b n i toLowerCase_instance_id
  show ?thesis by simp
qed

text \<open>
  C8 as it is written fails when the instance id is set to the empty string: the
  attribute \<^verbatim>\<open>instance_id=""\<close> on the group declared as \<^verbatim>\<open>main\<close> is handled and
  stored, and \<^verbatim>\<open>getId()\<close> still returns \<^verbatim>\<open>main\<close>, not the instance id.
\<close>

theorem getId_empty_instance_id_counterexample:
  "fst (setXmlAttr sample_deps ''instance_id'' [] sample_main) = Inr True \<and>
   instanceId (snd (setXmlAttr sample_deps ''instance_id'' [] sample_main)) = Some [] \<and>
   getId (snd (setXmlAttr sample_deps ''instance_id'' [] sample_main)) = Some ''main'' \<and>
   getId (snd (setXmlAttr sample_deps ''instance_id'' [] sample_main)) \<noteq>
     instanceId (snd (setXmlAttr sample_deps ''instance_id'' [] sample_main))"
proof -
  have b: "GuiObj_setXmlAttr sample_deps (toLowerCase ''instance_id'') [] (base sample_main)
      = (Inr False, base sample_main)"
    by (simp add: toLowerCase_instance_id sample_base_not_handled)
  have "setXmlAttr sample_deps ''instance_id'' [] sample_main
      = (Inr True, sample_main\<lparr>base := base sample_main, instanceId := Some []\<rparr>)"
    using b toLowerCase_instance_id by (rule setXmlAttr_instance_id)
  then show ?thesis
    by (simp add: getId_def truthy_def sample_main_fields sample_guiobj_def)
qed

subsection \<open>getobject\<close>

lemma getobject_loop_Some:
  "getobject_loop w l cs = Some r \<Longrightarrow> r \<in> set cs \<and> getId_of w r = Some l"
  by (induction cs) (auto split: if_splits)

lemma getobject_loop_None:
  "getobject_loop w l cs = None \<longleftrightarrow> (\<forall>c\<in>set cs. getId_of w c \<noteq> Some l)"
  by (induction cs) auto

lemma getobject_loop_first:
  "\<forall>x\<in>set pre. getId_of w x \<noteq> Some l \<Longrightarrow> getId_of w c = Some l \<Longrightarrow>
   getobject_loop w l (pre @ c # post) = Some c"
  by (induction pre) auto

lemma getobject_Inr:
  "getobject w g q = Inr r \<longleftrightarrow> getobject_loop w (toLowerCase q) (children g) = Some r"
  by (simp add: getobject_def Let_def split: option.splits)

lemma getobject_Inl:
  "getobject_loop w (toLowerCase q) (children g) = None \<Longrightarrow>
   getobject w g q = Inl (Error (getobject_message q (getId g)
      (join '', '' (map (\<lambda>child. join_element (getId_of w child)) (children g)))))"
  by (simp add: getobject_def Let_def)

text \<open>
  What the scan does: \<^verbatim>\<open>getobject\<close> compares the query in lower case with the
  identity \<^verbatim>\<open>getId()\<close> of each direct child, as it is stored. What it returns is a
  direct child whose identity is the query in lower case; it returns one whenever some
  direct child has that identity; two queries that differ in case only return the same
  child. A child of a child group that is not itself a direct child is never returned,
  and the system objects of the container play no part in the result.
\<close>

lemma getobject_scans_direct_children:
  "(getobject w g q = Inr r \<longrightarrow> r \<in> set (children g) \<and> getId_of w r = Some (toLowerCase q)) \<and>
   ((\<exists>c\<in>set (children g). getId_of w c = Some (toLowerCase q)) \<longrightarrow> (\<exists>c. getobject w g q = Inr c)) \<and>
   (toLowerCase q = toLowerCase q' \<longrightarrow> (getobject w g q = Inr r \<longleftrightarrow> getobject w g q' = Inr r)) \<and>
   (GroupRef a \<in> set (children g) \<and> x \<in> set (children (groups w a)) \<and> x \<notin> set (children g) \<longrightarrow>
      getobject w g q \<noteq> Inr x) \<and>
   getobject w (g\<lparr>systemObjects := ss\<rparr>) q = getobject w g q"
proof (intro conjI impI)
  assume "getobject w g q = Inr r"
  then show "r \<in> set (children g)" and "getId_of w r = Some (toLowerCase q)"
    by (simp_all add: getobject_Inr getobject_loop_Some)
next
  assume "\<exists>c\<in>set (children g). getId_of w c = Some (toLowerCase q)"
  then have "getobject_loop w (toLowerCase q) (children g) \<noteq> None"
    by (simp add: getobject_loop_None)
  then show "\<exists>c. getobject w g q = Inr c"
    by (auto simp: getobject_Inr)
next
  assume "toLowerCase q = toLowerCase q'"
  then show "getobject w g q = Inr r \<longleftrightarrow> getobject w g q' = Inr r"
    by (simp add: getobject_Inr)
next
  assume "GroupRef a \<in> set (children g) \<and> x \<in> set (children (groups w a)) \<and> x \<notin> set (children g)"
  then show "getobject w g q \<noteq> Inr x"
    by (auto simp: getobject_Inr dest: getobject_loop_Some)
next
  show "getobject w (g\<lparr>systemObjects := ss\<rparr>) q = getobject w g q"
    by (simp add: getobject_def getId_def Let_def split: option.splits)
qed

text \<open>
  On the sample skin: \<^verbatim>\<open>STOP\<close> and \<^verbatim>\<open>stop\<close> both find the first child named
  \<^verbatim>\<open>stop\<close>; \<^verbatim>\<open>deep\<close>, a child of the group \<^verbatim>\<open>panel\<close>, matches the query
  \<^verbatim>\<open>Deep\<close> and is not returned by \<^verbatim>\<open>main\<close>.
\<close>

lemma getobject_scans_direct_children_sample:
  "getobject sample_world sample_main ''STOP'' = Inr (GuiObjRef 3) \<and>
   getobject sample_world sample_main ''stop'' = Inr (GuiObjRef 3) \<and>
   GuiObjRef 3 \<in> set (children sample_main) \<and>
   getId_of sample_world (GuiObjRef 4) = Some (toLowerCase ''Deep'') \<and>
   getobject sample_world sample_main ''Deep'' \<noteq> Inr (GuiObjRef 4)"
proof -
  have s: "getobject sample_world sample_main ''STOP'' = Inr (GuiObjRef 3)"
    by (simp add: getobject_def sample_main_fields sample_ids toLowerCase_samples)
  have d: "GroupRef 7 \<in> set (children sample_main) \<and>
      GuiObjRef 4 \<in> set (children (groups sample_world 7)) \<and>
      GuiObjRef 4 \<notin> set (children sample_main)"
    by (simp add: sample_main_fields sample_panel_children)
  have e: "\<exists>c\<in>set (children sample_main). getId_of sample_world c = Some (toLowerCase ''STOP'')"
    by (simp add: sample_main_fields sample_ids toLowerCase_samples)
  have l: "toLowerCase ''STOP'' = toLowerCase ''stop''"
    by (simp add: toLowerCase_samples)
  from getobject_scans_direct_children
      [of sample_world sample_main "''STOP''" "GuiObjRef 3" "''stop''" 7 "GuiObjRef 4" "[]"]
    getobject_scans_direct_children
      [of sample_world sample_main "''Deep''" "GuiObjRef 3" "''Deep''" 7 "GuiObjRef 4" "[]"]
    s d e l
  show ?thesis by (simp add: sample_ids toLowerCase_samples)
qed

text \<open>
  The lower case of a string never holds a capital letter, so it is never
  \<^verbatim>\<open>Player\<close>.
\<close>

lemma toLowerCase_char_not_capital_P: "toLowerCase_char c \<noteq> CHR ''P''"
  by (cases c) (auto simp: Let_def split: if_splits)

lemma toLowerCase_not_Player: "toLowerCase q \<noteq> ''Player''"
  by (cases q) (auto simp: toLowerCase_def toLowerCase_char_not_capital_P)

lemma sample_player_fields:
  "instanceId sample_player = Some ''Player''"
  "id_f (base sample_player) = Some ''controls''"
proof -
  have "setXmlAttr sample_deps ''instance_id'' ''Player'' (sample_group ''controls'') =
      (Inr True, (sample_group ''controls'')
         \<lparr>base := base (sample_group ''controls''), instanceId := Some ''Player''\<rparr>)"
    by (rule setXmlAttr_instance_id)
      (simp_all add: toLowerCase_instance_id sample_base_not_handled)
  then show "instanceId sample_player = Some ''Player''"
    and "id_f (base sample_player) = Some ''controls''"
    by (simp_all add: sample_player_def sample_group_def sample_guiobj_def)
qed

lemma sample_world_player_main:
  "children (groups sample_world_player 6) =
     [GuiObjRef 2, GuiObjRef 3, GroupRef 7, GuiObjRef 5, GroupRef 10]"
  "getId (groups sample_world_player 6) = Some ''main''"
  by (simp_all add: sample_world_player_def addChild_def sample_world_def sample_main_fields
      getId_def truthy_def sample_guiobj_def)

lemma sample_player_ids:
  "getId_of sample_world_player (GuiObjRef 2) = Some ''play''"
  "getId_of sample_world_player (GuiObjRef 3) = Some ''stop''"
  "getId_of sample_world_player (GroupRef 7) = Some ''panel''"
  "getId_of sample_world_player (GuiObjRef 5) = Some ''stop''"
  "getId_of sample_world_player (GroupRef 10) = Some ''Player''"
  by (simp_all add: getId_of_def GuiObj_getId_def getId_def truthy_def sample_world_player_def
      addChild_def sample_world_def sample_guiobj_def sample_panel_def sample_group_def
      new_Group_def sample_player_fields)

text \<open>
  C1. The lookup is to find a direct child whatever the case of the letters: the query is
  put in lower case for that. An instance id is stored as it is written, though, and
  compared as it is stored. On the sample skin, the group whose attribute
  \<^verbatim>\<open>instance_id\<close> is \<^verbatim>\<open>Player\<close> is a direct child of \<^verbatim>\<open>main\<close> and its
  \<^verbatim>\<open>getId()\<close> is \<^verbatim>\<open>Player\<close>; \<^verbatim>\<open>getobject\<close> on \<^verbatim>\<open>main\<close> throws for the
  query \<^verbatim>\<open>Player\<close> and for the query \<^verbatim>\<open>player\<close>, with a message that lists
  \<^verbatim>\<open>Player\<close> among the children found, and returns this child for no query at all.
\<close>

theorem getobject_capital_instance_id_not_found:
  "GroupRef 10 \<in> set (children (groups sample_world_player 6)) \<and>
   getId_of sample_world_player (GroupRef 10) = Some ''Player'' \<and>
   getobject sample_world_player (groups sample_world_player 6) ''Player'' =
     Inl (Error (''Could not find an object with the id: '' @ [CHR 0x22] @ ''Player'' @ [CHR 0x22] @
       '' within object '' @ [CHR 0x22] @ ''main'' @ [CHR 0x22] @
       ''. Only found: play, stop, panel, stop, Player'')) \<and>
   getobject sample_world_player (groups sample_world_player 6) ''player'' =
     Inl (Error (''Could not find an object with the id: '' @ [CHR 0x22] @ ''player'' @ [CHR 0x22] @
       '' within object '' @ [CHR 0x22] @ ''main'' @ [CHR 0x22] @
       ''. Only found: play, stop, panel, stop, Player'')) \<and>
   (\<forall>q. getobject sample_world_player (groups sample_world_player 6) q \<noteq> Inr (GroupRef 10))"
proof -
  have c: "GroupRef 10 \<in> set (children (groups sample_world_player 6))"
    by (simp add: sample_world_player_main)
  have l: "toLowerCase ''Player'' = ''player''" "toLowerCase ''player'' = ''player''"
    by (simp_all add: toLowerCase_def)
  have n: "getobject_loop sample_world_player ''player'' (children (groups sample_world_player 6))
      = None"
    by (simp add: sample_world_player_main sample_player_ids)
  have 1: "getobject sample_world_player (groups sample_world_player 6) ''Player'' =
     Inl (Error (''Could not find an object with the id: '' @ [CHR 0x22] @ ''Player'' @ [CHR 0x22] @
       '' within object '' @ [CHR 0x22] @ ''main'' @ [CHR 0x22] @
       ''. Only found: play, stop, panel, stop, Player''))"
    using n by (simp add: getobject_Inl l getobject_message_def sample_world_player_main
        sample_player_ids join_element_def template_string_def)
  have 2: "getobject sample_world_player (groups sample_world_player 6) ''player'' =
     Inl (Error (''Could not find an object with the id: '' @ [CHR 0x22] @ ''player'' @ [CHR 0x22] @
       '' within object '' @ [CHR 0x22] @ ''main'' @ [CHR 0x22] @
       ''. Only found: play, stop, panel, stop, Player''))"
    using n by (simp add: getobject_Inl l getobject_message_def sample_world_player_main
        sample_player_ids join_element_def template_string_def)
  have 3: "getobject sample_world_player (groups sample_world_player 6) q \<noteq> Inr (GroupRef 10)" for q
  proof
    assume "getobject sample_world_player (groups sample_world_player 6) q = Inr (GroupRef 10)"
    then have "getId_of sample_world_player (GroupRef 10) = Some (toLowerCase q)"
      by (simp add: getobject_Inr getobject_loop_Some)
    then show False
      using toLowerCase_not_Player [of q] by (simp add: sample_player_ids)
  qed
  from c 1 2 3 show ?thesis
    by (simp add: sample_player_ids)
qed

text \<open>
  C2. When no direct child has the query in lower case as identity, \<^verbatim>\<open>getobject\<close>
  ends with the thrown error, whose message holds the requested id as it was given, the
  \<^verbatim>\<open>getId()\<close> of the container, and the identities of all the direct children, one
  for each child, in the order of the array, joined by a comma and a space.
\<close>

theorem getobject_miss_raises:
  assumes "\<forall>c\<in>set (children g). getId_of w c \<noteq> Some (toLowerCase q)"
  shows "getobject w g q =
     Inl (Error (''Could not find an object with the id: '' @ [CHR 0x22] @ q @ [CHR 0x22] @
       '' within object '' @ [CHR 0x22] @ template_string (getId g) @ [CHR 0x22] @
       ''. Only found: '' @
       join '', '' (map (\<lambda>c. join_element (getId_of w c)) (children g))))"
proof -
  from assms have "getobject_loop w (toLowerCase q) (children g) = None"
    by (simp add: getobject_loop_None)
  then show ?thesis
    by (simp add: getobject_Inl getobject_message_def)
qed

text \<open>
  On the sample skin, \<^verbatim>\<open>pause\<close> is not found in \<^verbatim>\<open>main\<close>, and the message lists
  \<^verbatim>\<open>play, stop, panel, stop\<close>.
\<close>

theorem getobject_miss_raises_witness:
  "getobject sample_world sample_main ''pause'' =
     Inl (Error (''Could not find an object with the id: '' @ [CHR 0x22] @ ''pause'' @ [CHR 0x22] @
       '' within object '' @ [CHR 0x22] @ ''main'' @ [CHR 0x22] @
       ''. Only found: play, stop, panel, stop''))"
proof -
  have m: "\<forall>c\<in>set (children sample_main). getId_of sample_world c \<noteq> Some (toLowerCase ''pause'')"
    by (simp add: sample_main_fields sample_ids toLowerCase_samples)
  have i: "getId sample_main = Some ''main''"
    by (simp add: getId_def truthy_def sample_main_fields sample_guiobj_def)
  from getobject_miss_raises [OF m] i show ?thesis
    by (simp add: sample_main_fields sample_ids join_element_def template_string_def)
qed

text \<open>
  C10. When several direct children have the query in lower case as identity,
  \<^verbatim>\<open>getobject\<close> returns the earliest of them in the order of the array: a matching
  child before which no child matches is the result, whatever follows it.
\<close>

theorem getobject_first_match:
  assumes "children g = pre @ c # post"
    and "getId_of w c = Some (toLowerCase q)"
    and "\<forall>x\<in>set pre. getId_of w x \<noteq> Some (toLowerCase q)"
  shows "getobject w g q = Inr c"
  using assms by (simp add: getobject_Inr getobject_loop_first)

text \<open>
  On the sample skin the second and the fourth child of \<^verbatim>\<open>main\<close> are both named
  \<^verbatim>\<open>stop\<close>; the second is returned.
\<close>

theorem getobject_first_match_witness:
  "getId_of sample_world (GuiObjRef 3) = Some (toLowerCase ''Stop'') \<and>
   getId_of sample_world (GuiObjRef 5) = Some (toLowerCase ''Stop'') \<and>
   children sample_main = [GuiObjRef 2] @ GuiObjRef 3 # [GroupRef 7, GuiObjRef 5] \<and>
   getobject sample_world sample_main ''Stop'' = Inr (GuiObjRef 3)"
proof -
  have l: "toLowerCase ''Stop'' = ''stop''" by (simp add: toLowerCase_def)
  have c: "children sample_main = [GuiObjRef 2] @ GuiObjRef 3 # [GroupRef 7, GuiObjRef 5]"
    by (simp add: sample_main_fields)
  have m: "getId_of sample_world (GuiObjRef 3) = Some (toLowerCase ''Stop'')"
    by (simp add: sample_ids l)
  have p: "\<forall>x\<in>set [GuiObjRef 2]. getId_of sample_world x \<noteq> Some (toLowerCase ''Stop'')"
    by (simp add: sample_ids l)
  from getobject_first_match [OF c m p] c m show ?thesis
    by (simp add: sample_ids l)
qed

subsection \<open>setXmlAttr\<close>

lemma setXmlAttr_not_handled_by_base:
  assumes "GuiObj_setXmlAttr D (toLowerCase k) v (base g) = (Inr False, b)"
  shows "setXmlAttr D k v g =
     (if toLowerCase k = ''instance_id'' then (Inr True, g\<lparr>base := b, instanceId := Some v\<rparr>)
      else if toLowerCase k = ''background'' then (Inr True, g\<lparr>base := b, background := Some v\<rparr>)
      else if toLowerCase k = ''drawbackground'' then
        (case Utils_toBool D v of
           Inl e \<Rightarrow> (Inl e, g\<lparr>base := b\<rparr>)
         | Inr t \<Rightarrow> (Inr True, g\<lparr>base := b, drawBackground := Some t\<rparr>))
      else if toLowerCase k = ''minimum_h'' then
        (case Utils_num D v of
           Inl e \<Rightarrow> (Inl e, g\<lparr>base := b\<rparr>)
         | Inr n \<Rightarrow> (Inr True, g\<lparr>base := b, minimumHeight := Some n\<rparr>))
      else if toLowerCase k = ''minimum_w'' then
        (case Utils_num D v of
           Inl e \<Rightarrow> (Inl e, g\<lparr>base := b\<rparr>)
         | Inr n \<Rightarrow> (Inr True, g\<lparr>base := b, minimumWidth := Some n\<rparr>))
      else if toLowerCase k = ''maximum_h'' then
        (case Utils_num D v of
           Inl e \<Rightarrow> (Inl e, g\<lparr>base := b\<rparr>)
         | Inr n \<Rightarrow> (Inr True, g\<lparr>base := b, maximumHeight := Some n\<rparr>))
      else if toLowerCase k = ''maximum_w'' then
        (case Utils_num D v of
           Inl e \<Rightarrow> (Inl e, g\<lparr>base := b\<rparr>)
         | Inr n \<Rightarrow> (Inr True, g\<lparr>base := b, maximumWidth := Some n\<rparr>))
      else (Inr False, g\<lparr>base := b\<rparr>))"
  using assms by (simp add: setXmlAttr_def Let_def split: sum.splits)

lemma setXmlAttr_handled_by_base:
  assumes "GuiObj_setXmlAttr D (toLowerCase k) v (base g) = (Inr True, b)"
  shows "setXmlAttr D k v g = (Inr True, g\<lparr>base := b\<rparr>)"
  using assms by (simp add: setXmlAttr_def)

lemma setXmlAttr_thrown_by_base:
  assumes "GuiObj_setXmlAttr D (toLowerCase k) v (base g) = (Inl e, b)"
  shows "setXmlAttr D k v g = (Inl e, g\<lparr>base := b\<rparr>)"
  using assms by (simp add: setXmlAttr_def)

text \<open>
  C3. Let the base class not handle the key, written in any case. For each of the seven
  keys of the \<^verbatim>\<open>switch\<close>, \<^verbatim>\<open>setXmlAttr\<close> returns \<^verbatim>\<open>true\<close> and the field of the
  key holds the value: the string itself for \<^verbatim>\<open>instance_id\<close> and
  \<^verbatim>\<open>background\<close>, the boolean \<^verbatim>\<open>Utils.toBool\<close> makes of it for
  \<^verbatim>\<open>drawbackground\<close>, the number \<^verbatim>\<open>Utils.num\<close> makes of it for the four
  minimum and maximum keys; no other field of the group changes. For a key that is none
  of the seven, \<^verbatim>\<open>setXmlAttr\<close> returns \<^verbatim>\<open>false\<close> and the fields of the group are
  as the base class left them, so unchanged when the base class changed nothing.
\<close>

theorem setXmlAttr_recognized_keys:
  assumes "GuiObj_setXmlAttr D (toLowerCase k) v (base g) = (Inr False, b)"
  shows
   "(toLowerCase k = ''instance_id'' \<longrightarrow>
       setXmlAttr D k v g = (Inr True, g\<lparr>base := b, instanceId := Some v\<rparr>)) \<and>
    (toLowerCase k = ''background'' \<longrightarrow>
       setXmlAttr D k v g = (Inr True, g\<lparr>base := b, background := Some v\<rparr>)) \<and>
    (toLowerCase k = ''drawbackground'' \<and> Utils_toBool D v = Inr t \<longrightarrow>
       setXmlAttr D k v g = (Inr True, g\<lparr>base := b, drawBackground := Some t\<rparr>)) \<and>
    (toLowerCase k = ''minimum_h'' \<and> Utils_num D v = Inr n \<longrightarrow>
       setXmlAttr D k v g = (Inr True, g\<lparr>base := b, minimumHeight := Some n\<rparr>)) \<and>
    (toLowerCase k = ''minimum_w'' \<and> Utils_num D v = Inr n \<longrightarrow>
       setXmlAttr D k v g = (Inr True, g\<lparr>base := b, minimumWidth := Some n\<rparr>)) \<and>
    (toLowerCase k = ''maximum_h'' \<and> Utils_num D v = Inr n \<longrightarrow>
       setXmlAttr D k v g = (Inr True, g\<lparr>base := b, maximumHeight := Some n\<rparr>)) \<and>
    (toLowerCase k = ''maximum_w'' \<and> Utils_num D v = Inr n \<longrightarrow>
       setXmlAttr D k v g = (Inr True, g\<lparr>base := b, maximumWidth := Some n\<rparr>)) \<and>
    (toLowerCase k \<notin> set Group_keys \<longrightarrow> setXmlAttr D k v g = (Inr False, g\<lparr>base := b\<rparr>)) \<and>
    (toLowerCase k \<notin> set Group_keys \<and> b = base g \<longrightarrow> setXmlAttr D k v g = (Inr False, g))"
  by (simp add: setXmlAttr_not_handled_by_base [OF assms] Group_keys_def)

text \<open>
  Each of the seven keys and an unknown key, on the sample group \<^verbatim>\<open>main\<close>.
\<close>

theorem setXmlAttr_recognized_keys_witness:
  "setXmlAttr sample_deps ''instance_id'' ''Player'' sample_main =
     (Inr True, sample_main\<lparr>instanceId := Some ''Player''\<rparr>) \<and>
   setXmlAttr sample_deps ''background'' ''wasabi.frame'' sample_main =
     (Inr True, sample_main\<lparr>background := Some ''wasabi.frame''\<rparr>) \<and>
   setXmlAttr sample_deps ''drawbackground'' ''1'' sample_main =
     (Inr True, sample_main\<lparr>drawBackground := Some True\<rparr>) \<and>
   setXmlAttr sample_deps ''minimum_h'' ''10'' sample_main =
     (Inr True, sample_main\<lparr>minimumHeight := Some ''10''\<rparr>) \<and>
   setXmlAttr sample_deps ''minimum_w'' ''20'' sample_main =
     (Inr True, sample_main\<lparr>minimumWidth := Some ''20''\<rparr>) \<and>
   setXmlAttr sample_deps ''maximum_h'' ''50'' sample_main =
     (Inr True, sample_main\<lparr>maximumHeight := Some ''50''\<rparr>) \<and>
   setXmlAttr sample_deps ''maximum_w'' ''200'' sample_main =
     (Inr True, sample_main\<lparr>maximumWidth := Some ''200''\<rparr>) \<and>
   setXmlAttr sample_deps ''tooltip'' ''Play'' sample_main = (Inr False, sample_main)"
proof -
  have l: "toLowerCase ''instance_id'' = ''instance_id''"
    "toLowerCase ''background'' = ''background''"
    "toLowerCase ''drawbackground'' = ''drawbackground''"
    "toLowerCase ''minimum_h'' = ''minimum_h''"
    "toLowerCase ''minimum_w'' = ''minimum_w''"
    "toLowerCase ''maximum_h'' = ''maximum_h''"
    "toLowerCase ''maximum_w'' = ''maximum_w''"
    "toLowerCase ''tooltip'' = ''tooltip''"
    by (simp_all add: toLowerCase_def)
  have b: "GuiObj_setXmlAttr sample_deps (toLowerCase ''instance_id'') ''Player'' (base sample_main)
        = (Inr False, base sample_main)"
    "GuiObj_setXmlAttr sample_deps (toLowerCase ''background'') ''wasabi.frame'' (base sample_main)
        = (Inr False, base sample_main)"
    "GuiObj_setXmlAttr sample_deps (toLowerCase ''drawbackground'') ''1'' (base sample_main)
        = (Inr False, base sample_main)"
    "GuiObj_setXmlAttr sample_deps (toLowerCase ''minimum_h'') ''10'' (base sample_main)
        = (Inr False, base sample_main)"
    "GuiObj_setXmlAttr sample_deps (toLowerCase ''minimum_w'') ''20'' (base sample_main)
        = (Inr False, base sample_main)"
    "GuiObj_setXmlAttr sample_deps (toLowerCase ''maximum_h'') ''50'' (base sample_main)
        = (Inr False, base sample_main)"
    "GuiObj_setXmlAttr sample_deps (toLowerCase ''maximum_w'') ''200'' (base sample_main)
        = (Inr False, base sample_main)"
    "GuiObj_setXmlAttr sample_deps (toLowerCase ''tooltip'') ''Play'' (base sample_main)
        = (Inr False, base sample_main)"
    by (simp_all add: l sample_base_not_handled)
  from setXmlAttr_recognized_keys [OF b(1)]
    setXmlAttr_recognized_keys [OF b(2)]
    setXmlAttr_recognized_keys [OF b(3), where t = True]
    setXmlAttr_recognized_keys [OF b(4), where n = "''10''"]
    setXmlAttr_recognized_keys [OF b(5), where n = "''20''"]
    setXmlAttr_recognized_keys [OF b(6), where n = "''50''"]
    setXmlAttr_recognized_keys [OF b(7), where n = "''200''"]
    setXmlAttr_recognized_keys [OF b(8)]
  show ?thesis
    by (simp add: l sample_utils Group_keys_def)
qed

text \<open>
  C4. \<^verbatim>\<open>setXmlAttr\<close> passes the key in lower case to the base class first. When
  the base class handles it, the result is \<^verbatim>\<open>true\<close> and no field of the group's own
  is touched, also when the key is one of the group's seven. When the base class does
  not handle it, the group's own keys decide. Whenever a boolean is returned, it is the
  disjunction of what the base class returned and of the key being one of the seven.
  Keys that are equal in lower case have the same effect and result; in particular
  \<^verbatim>\<open>Background\<close> and \<^verbatim>\<open>background\<close>.
\<close>

theorem setXmlAttr_chain:
  "(GuiObj_setXmlAttr D (toLowerCase k) v (base g) = (Inr True, b) \<longrightarrow>
      setXmlAttr D k v g = (Inr True, g\<lparr>base := b\<rparr>)) \<and>
   (GuiObj_setXmlAttr D (toLowerCase k) v (base g) = (Inr False, b) \<and>
    toLowerCase k \<notin> set Group_keys \<longrightarrow>
      setXmlAttr D k v g = (Inr False, g\<lparr>base := b\<rparr>)) \<and>
   (GuiObj_setXmlAttr D (toLowerCase k) v (base g) = (Inr hb, b) \<and>
    fst (setXmlAttr D k v g) = Inr r \<longrightarrow>
      r = (hb \<or> toLowerCase k \<in> set Group_keys)) \<and>
   (toLowerCase k = toLowerCase k' \<longrightarrow> setXmlAttr D k v g = setXmlAttr D k' v g) \<and>
   setXmlAttr D ''Background'' v g = setXmlAttr D ''background'' v g"
proof (intro conjI impI)
  assume "GuiObj_setXmlAttr D (toLowerCase k) v (base g) = (Inr True, b)"
  then show "setXmlAttr D k v g = (Inr True, g\<lparr>base := b\<rparr>)"
    by (rule setXmlAttr_handled_by_base)
next
  assume "GuiObj_setXmlAttr D (toLowerCase k) v (base g) = (Inr False, b) \<and>
    toLowerCase k \<notin> set Group_keys"
  then have h: "GuiObj_setXmlAttr D (toLowerCase k) v (base g) = (Inr False, b)"
    and n: "toLowerCase k \<notin> set Group_keys"
    by blast+
  from n show "setXmlAttr D k v g = (Inr False, g\<lparr>base := b\<rparr>)"
    by (simp add: setXmlAttr_not_handled_by_base [OF h] Group_keys_def)
next
  assume "GuiObj_setXmlAttr D (toLowerCase k) v (base g) = (Inr hb, b) \<and>
    fst (setXmlAttr D k v g) = Inr r"
  then have h: "GuiObj_setXmlAttr D (toLowerCase k) v (base g) = (Inr hb, b)"
    and r: "fst (setXmlAttr D k v g) = Inr r"
    by blast+
  show "r = (hb \<or> toLowerCase k \<in> set Group_keys)"
  proof (cases hb)
    case True
    with h r show ?thesis
      by (simp add: setXmlAttr_handled_by_base)
  next
    case False
    with h have h': "GuiObj_setXmlAttr D (toLowerCase k) v (base g) = (Inr False, b)"
      by simp
    from r False show ?thesis
      unfolding setXmlAttr_not_handled_by_base [OF h'] Group_keys_def
      by (auto split: if_splits sum.splits)
  qed
next
  assume "toLowerCase k = toLowerCase k'"
  then show "setXmlAttr D k v g = setXmlAttr D k' v g"
    by (simp add: setXmlAttr_def)
next
  show "setXmlAttr D ''Background'' v g = setXmlAttr D ''background'' v g"
    by (simp add: setXmlAttr_def toLowerCase_def)
qed

text \<open>
  On the sample group: the key \<^verbatim>\<open>ID\<close> is handled by the base class; a base class
  that handles everything keeps \<^verbatim>\<open>Background\<close> away from the group's field; the
  key \<^verbatim>\<open>ToolTip\<close> is handled by nobody; the case of the key does not matter.
\<close>

theorem setXmlAttr_chain_witness:
  "setXmlAttr sample_deps ''ID'' ''Main'' sample_main =
     (Inr True, sample_main\<lparr>base := (base sample_main)\<lparr>id_f := Some ''main''\<rparr>\<rparr>) \<and>
   setXmlAttr sample_deps_base_handles_all ''Background'' ''wasabi.frame'' sample_main =
     (Inr True, sample_main) \<and>
   setXmlAttr sample_deps ''ToolTip'' ''Play'' sample_main = (Inr False, sample_main) \<and>
   setXmlAttr sample_deps ''BACKGROUND'' ''wasabi.frame'' sample_main =
     setXmlAttr sample_deps ''BackGround'' ''wasabi.frame'' sample_main \<and>
   setXmlAttr sample_deps ''Background'' ''wasabi.frame'' sample_main =
     setXmlAttr sample_deps ''background'' ''wasabi.frame'' sample_main"
proof -
  have l: "toLowerCase ''ID'' = ''id''" "toLowerCase ''Main'' = ''main''"
    "toLowerCase ''ToolTip'' = ''tooltip''"
    "toLowerCase ''BACKGROUND'' = toLowerCase ''BackGround''"
    by (simp_all add: toLowerCase_def)
  have i: "GuiObj_setXmlAttr sample_deps (toLowerCase ''ID'') ''Main'' (base sample_main)
      = (Inr True, (base sample_main)\<lparr>id_f := Some ''main''\<rparr>)"
    by (simp add: l sample_deps_def sample_GuiObj_setXmlAttr_def)
  have a: "GuiObj_setXmlAttr sample_deps_base_handles_all (toLowerCase ''Background'')
      ''wasabi.frame'' (base sample_main) = (Inr True, base sample_main)"
    by (simp add: sample_deps_base_handles_all_def)
  have t: "GuiObj_setXmlAttr sample_deps (toLowerCase ''ToolTip'') ''Play'' (base sample_main)
      = (Inr False, base sample_main) \<and> toLowerCase ''ToolTip'' \<notin> set Group_keys"
    by (simp add: l sample_base_not_handled Group_keys_def)
  from setXmlAttr_chain [of sample_deps "''ID''" "''Main''" sample_main
        "(base sample_main)\<lparr>id_f := Some ''main''\<rparr>"]
    setXmlAttr_chain [of sample_deps_base_handles_all "''Background''" "''wasabi.frame''"
        sample_main "base sample_main"]
    setXmlAttr_chain [of sample_deps "''ToolTip''" "''Play''" sample_main "base sample_main"]
    setXmlAttr_chain [of sample_deps "''BACKGROUND''" "''wasabi.frame''" sample_main _ _ _
        "''BackGround''"]
    i a t l(4)
  show ?thesis by simp
qed

subsection \<open>init\<close>

text \<open>A loop that appends to the log, in closed form.\<close>

lemma fold_snoc_map: "fold (\<lambda>x l. l @ [f x]) xs log = log @ map f xs"
  by (induction xs arbitrary: log) simp_all

lemma fold_snoc_concat_map: "fold (\<lambda>x l. l @ f x) xs log = log @ concat (map f xs)"
  by (induction xs arbitrary: log) simp_all

text \<open>
  C5. The calls \<^verbatim>\<open>init\<close> makes are, in this order, one \<^verbatim>\<open>init\<close> on each system
  object in the order of \<^verbatim>\<open>_systemObjects\<close> and then one \<^verbatim>\<open>init\<close> on each child in
  the order of \<^verbatim>\<open>_children\<close>, each with the context that was passed in. With N system
  objects and M children these are N + M calls, the first N on the system objects and
  the remaining M on the children.
\<close>

theorem init_calls_in_order:
  "init g ctx log =
     log @ map (\<lambda>s. SystemObject_init s ctx) (systemObjects g)
         @ map (\<lambda>c. GuiObj_init c ctx) (children g) \<and>
   length (init g ctx []) = length (systemObjects g) + length (children g) \<and>
   take (length (systemObjects g)) (init g ctx []) =
     map (\<lambda>s. SystemObject_init s ctx) (systemObjects g) \<and>
   drop (length (systemObjects g)) (init g ctx []) =
     map (\<lambda>c. GuiObj_init c ctx) (children g)"
  by (simp add: init_def fold_snoc_map)

text \<open>
  On the sample skin with two system objects attached to \<^verbatim>\<open>main\<close>: six calls, the
  two system objects first.
\<close>

theorem init_calls_in_order_witness:
  "init (groups sample_wired 6) ''skin'' [] =
     [SystemObject_init 8 ''skin'', SystemObject_init 9 ''skin'',
      GuiObj_init (GuiObjRef 2) ''skin'', GuiObj_init (GuiObjRef 3) ''skin'',
      GuiObj_init (GroupRef 7) ''skin'', GuiObj_init (GuiObjRef 5) ''skin''] \<and>
   length (init (groups sample_wired 6) ''skin'' []) = 6"
  using init_calls_in_order [of "groups sample_wired 6" "''skin''" "[]"]
  by (simp add: sample_wired_main)

subsection \<open>draw\<close>

lemma draw_log:
  "snd (draw D g log) =
     log @ [Super_draw, Div_setAttribute ''data-obj-name'' ''Group'',
            Div_style_height (Utils_px D (maximumHeight g)),
            Div_style_width (Utils_px D (maximumWidth g))]
         @ (case background g of
              None \<Rightarrow> []
            | Some bg \<Rightarrow>
                if drawBackground g = Some True
                then [Call_getBitmap bg,
                      Div_style_background (getBackgrondCSSAttribute D (UI_ROOT_getBitmap D bg))]
                else [])
         @ concat (map (\<lambda>c. [Child_draw c, Div_appendChild c]) (children g))"
  by (simp add: draw_def Let_def fold_snoc_concat_map split: option.splits)

lemma draw_receiver: "fst (draw D g log) = g\<lparr>base := GuiObj_draw D (base g)\<rparr>"
  by (simp add: draw_def Let_def)

lemma appended_append: "appended (xs @ ys) = appended xs @ appended ys"
  by (induction xs rule: appended.induct) simp_all

lemma appended_children:
  "appended (concat (map (\<lambda>c. [Child_draw c, Div_appendChild c]) cs)) = cs"
  by (induction cs) simp_all

lemma appendChild_after_draw:
  "concat (map (\<lambda>c. [Child_draw c, Div_appendChild c]) cs) = pre @ Div_appendChild r # post
   \<Longrightarrow> \<exists>pre'. pre = pre' @ [Child_draw r]"
proof (induction cs arbitrary: pre)
  case Nil
  then show ?case by simp
next
  case (Cons c cs)
  note eq = Cons.prems and IH = Cons.IH
  show ?case
  proof (cases pre)
    assume "pre = []"
    with eq show ?thesis by simp
  next
    fix x pre1
    assume p: "pre = x # pre1"
    show ?thesis
    proof (cases pre1)
      assume "pre1 = []"
      with p eq show ?thesis by auto
    next
      fix y pre2
      assume p1: "pre1 = y # pre2"
      with p eq
      have "concat (map (\<lambda>c. [Child_draw c, Div_appendChild c]) cs)
          = pre2 @ Div_appendChild r # post"
        by simp
      from IH [OF this] obtain pre' where "pre2 = pre' @ [Child_draw r]" ..
      with p p1 show ?thesis by simp
    qed
  qed
qed

lemma appendChild_after_draw_prefixed:
  assumes "hdr @ concat (map (\<lambda>c. [Child_draw c, Div_appendChild c]) cs)
      = pre @ Div_appendChild r # post"
    and "Div_appendChild r \<notin> set hdr"
  shows "\<exists>pre'. pre = pre' @ [Child_draw r]"
proof -
  from assms(1) consider
    us where "hdr = pre @ us" "us @ concat (map (\<lambda>c. [Child_draw c, Div_appendChild c]) cs) = Div_appendChild r # post" |
    us where "hdr @ us = pre" "concat (map (\<lambda>c. [Child_draw c, Div_appendChild c]) cs) = us @ Div_appendChild r # post"
    by (auto simp: append_eq_append_conv2)
  then show ?thesis
  proof cases
    case 1
    show ?thesis
    proof (cases us)
      case Nil
      with 1 have "concat (map (\<lambda>c. [Child_draw c, Div_appendChild c]) cs) = [] @ Div_appendChild r # post"
        by simp
      from appendChild_after_draw [OF this] show ?thesis by simp
    next
      case (Cons u us')
      with 1 assms(2) show ?thesis by auto
    qed
  next
    case 2
    from appendChild_after_draw [OF 2(2)] obtain pre' where "us = pre' @ [Child_draw r]" ..
    with 2(1) have "pre = (hdr @ pre') @ [Child_draw r]" by simp
    then show ?thesis ..
  qed
qed

text \<open>
  C6. In the log of \<^verbatim>\<open>draw\<close>, the handles appended to the render target are those of
  the children, in the order of \<^verbatim>\<open>_children\<close>; every \<^verbatim>\<open>appendChild\<close> of a child's
  handle comes directly after the \<^verbatim>\<open>draw\<close> of that child, which has returned by
  then; and the log ends with the pairs \<^verbatim>\<open>draw\<close>, \<^verbatim>\<open>appendChild\<close> of the children
  in order, after a first part that appends nothing. For the children A, B, C the log
  ends with the draw and the append of A, then of B, then of C.
\<close>

theorem draw_children_in_order:
  "appended (snd (draw D g [])) = children g \<and>
   (snd (draw D g []) = pre @ Div_appendChild r # post \<longrightarrow>
      (\<exists>pre'. pre = pre' @ [Child_draw r])) \<and>
   (\<exists>hdr. appended hdr = [] \<and>
      snd (draw D g []) =
        hdr @ concat (map (\<lambda>c. [Child_draw c, Div_appendChild c]) (children g))) \<and>
   (children g = [A, B, C] \<longrightarrow>
      (\<exists>hdr. appended hdr = [] \<and>
         snd (draw D g []) =
           hdr @ [Child_draw A, Div_appendChild A, Child_draw B, Div_appendChild B,
                  Child_draw C, Div_appendChild C]))"
proof -
  define hdr where "hdr =
     [Super_draw, Div_setAttribute ''data-obj-name'' ''Group'',
      Div_style_height (Utils_px D (maximumHeight g)),
      Div_style_width (Utils_px D (maximumWidth g))]
     @ (case background g of
          None \<Rightarrow> []
        | Some bg \<Rightarrow>
            if drawBackground g = Some True
            then [Call_getBitmap bg,
                  Div_style_background (getBackgrondCSSAttribute D (UI_ROOT_getBitmap D bg))]
            else [])"
  have log: "snd (draw D g []) =
      hdr @ concat (map (\<lambda>c. [Child_draw c, Div_appendChild c]) (children g))"
    by (simp add: draw_log hdr_def)
  have none: "appended hdr = []"
    by (simp add: hdr_def split: option.splits)
  have notin: "Div_appendChild r \<notin> set hdr"
    by (auto simp: hdr_def split: option.splits)
  have 1: "appended (snd (draw D g [])) = children g"
    by (simp add: log appended_append none appended_children)
  have 2: "snd (draw D g []) = pre @ Div_appendChild r # post \<longrightarrow>
      (\<exists>pre'. pre = pre' @ [Child_draw r])"
    unfolding log using appendChild_after_draw_prefixed [OF _ notin] by blast
  have 3: "\<exists>hdr. appended hdr = [] \<and>
      snd (draw D g []) =
        hdr @ concat (map (\<lambda>c. [Child_draw c, Div_appendChild c]) (children g))"
    using log none by blast
  have 4: "children g = [A, B, C] \<longrightarrow>
      (\<exists>hdr. appended hdr = [] \<and>
         snd (draw D g []) =
           hdr @ [Child_draw A, Div_appendChild A, Child_draw B, Div_appendChild B,
                  Child_draw C, Div_appendChild C])"
  proof
    assume "children g = [A, B, C]"
    with log have "snd (draw D g []) =
           hdr @ [Child_draw A, Div_appendChild A, Child_draw B, Div_appendChild B,
                  Child_draw C, Div_appendChild C]"
      by simp
    with none show "\<exists>hdr. appended hdr = [] \<and>
         snd (draw D g []) =
           hdr @ [Child_draw A, Div_appendChild A, Child_draw B, Div_appendChild B,
                  Child_draw C, Div_appendChild C]"
      by blast
  qed
  from 1 2 3 4 show ?thesis by blast
qed

text \<open>
  On a sample group with three children and no background.
\<close>

theorem draw_children_in_order_witness:
  "children sample_three = [GuiObjRef 2, GuiObjRef 3, GroupRef 7] \<and>
   snd (draw sample_deps sample_three []) =
     [Super_draw, Div_setAttribute ''data-obj-name'' ''Group'', Div_style_height [],
      Div_style_width [], Child_draw (GuiObjRef 2), Div_appendChild (GuiObjRef 2),
      Child_draw (GuiObjRef 3)]
     @ Div_appendChild (GuiObjRef 3) # [Child_draw (GroupRef 7), Div_appendChild (GroupRef 7)] \<and>
   appended (snd (draw sample_deps sample_three [])) = [GuiObjRef 2, GuiObjRef 3, GroupRef 7] \<and>
   (\<exists>pre'. [Super_draw, Div_setAttribute ''data-obj-name'' ''Group'', Div_style_height [],
      Div_style_width [], Child_draw (GuiObjRef 2), Div_appendChild (GuiObjRef 2),
      Child_draw (GuiObjRef 3)] = pre' @ [Child_draw (GuiObjRef 3)]) \<and>
   (\<exists>hdr. appended hdr = [] \<and>
      snd (draw sample_deps sample_three []) =
        hdr @ [Child_draw (GuiObjRef 2), Div_appendChild (GuiObjRef 2),
               Child_draw (GuiObjRef 3), Div_appendChild (GuiObjRef 3),
               Child_draw (GroupRef 7), Div_appendChild (GroupRef 7)])"
proof -
  have c: "children sample_three = [GuiObjRef 2, GuiObjRef 3, GroupRef 7]"
    by (simp add: sample_three_fields)
  have l: "snd (draw sample_deps sample_three []) =
     [Super_draw, Div_setAttribute ''data-obj-name'' ''Group'', Div_style_height [],
      Div_style_width [], Child_draw (GuiObjRef 2), Div_appendChild (GuiObjRef 2),
      Child_draw (GuiObjRef 3)]
     @ Div_appendChild (GuiObjRef 3) # [Child_draw (GroupRef 7), Div_appendChild (GroupRef 7)]"
    by (simp add: draw_log sample_three_fields sample_px_None)
  note t = draw_children_in_order [of sample_deps sample_three
     "[Super_draw, Div_setAttribute ''data-obj-name'' ''Group'', Div_style_height [],
       Div_style_width [], Child_draw (GuiObjRef 2), Div_appendChild (GuiObjRef 2),
       Child_draw (GuiObjRef 3)]"
     "GuiObjRef 3" "[Child_draw (GroupRef 7), Div_appendChild (GroupRef 7)]"
     "GuiObjRef 2" "GuiObjRef 3" "GroupRef 7"]
  from t c have 1: "appended (snd (draw sample_deps sample_three []))
      = [GuiObjRef 2, GuiObjRef 3, GroupRef 7]"
    by simp
  from t l have 2: "\<exists>pre'. [Super_draw, Div_setAttribute ''data-obj-name'' ''Group'',
      Div_style_height [], Div_style_width [], Child_draw (GuiObjRef 2),
      Div_appendChild (GuiObjRef 2), Child_draw (GuiObjRef 3)] = pre' @ [Child_draw (GuiObjRef 3)]"
    by blast
  from t c have 3: "\<exists>hdr. appended hdr = [] \<and>
      snd (draw sample_deps sample_three []) =
        hdr @ [Child_draw (GuiObjRef 2), Div_appendChild (GuiObjRef 2),
               Child_draw (GuiObjRef 3), Div_appendChild (GuiObjRef 3),
               Child_draw (GroupRef 7), Div_appendChild (GroupRef 7)]"
    by blast
  from c l 1 2 3 show ?thesis by blast
qed

text \<open>
  C7. \<^verbatim>\<open>draw\<close> asks \<^verbatim>\<open>UI_ROOT\<close> for a bitmap exactly when \<^verbatim>\<open>_background\<close> is
  set and \<^verbatim>\<open>_drawBackground\<close> is \<^verbatim>\<open>true\<close>, and then for the bitmap of
  \<^verbatim>\<open>_background\<close>; it assigns the render target's background in exactly that case,
  and the assigned string is the bitmap's \<^verbatim>\<open>getBackgrondCSSAttribute()\<close>. In every
  case the fields \<^verbatim>\<open>_background\<close> and \<^verbatim>\<open>_drawBackground\<close> are after \<^verbatim>\<open>draw\<close>
  what they were before.
\<close>

theorem draw_background_iff:
  "(Call_getBitmap bg \<in> set (snd (draw D g [])) \<longleftrightarrow>
      background g = Some bg \<and> drawBackground g = Some True) \<and>
   (Div_style_background v \<in> set (snd (draw D g [])) \<longleftrightarrow>
      (\<exists>bg. background g = Some bg \<and> drawBackground g = Some True \<and>
            v = getBackgrondCSSAttribute D (UI_ROOT_getBitmap D bg))) \<and>
   background (fst (draw D g log)) = background g \<and>
   drawBackground (fst (draw D g log)) = drawBackground g"
proof (intro conjI)
  show "Call_getBitmap bg \<in> set (snd (draw D g [])) \<longleftrightarrow>
      background g = Some bg \<and> drawBackground g = Some True"
    by (auto simp: draw_log split: option.splits)
  show "Div_style_background v \<in> set (snd (draw D g [])) \<longleftrightarrow>
      (\<exists>bg. background g = Some bg \<and> drawBackground g = Some True \<and>
            v = getBackgrondCSSAttribute D (UI_ROOT_getBitmap D bg))"
    by (cases "background g") (auto simp: draw_log)
  show "background (fst (draw D g log)) = background g"
    by (simp add: draw_receiver)
  show "drawBackground (fst (draw D g log)) = drawBackground g"
    by (simp add: draw_receiver)
qed

text \<open>
  On the sample group: with a background reference and the flag \<^verbatim>\<open>true\<close> the bitmap
  is fetched and applied; with the flag \<^verbatim>\<open>false\<close> it is not, and the reference is
  kept; with the flag \<^verbatim>\<open>true\<close> and no reference nothing is applied.
\<close>

theorem draw_background_iff_witness:
  "Call_getBitmap ''wasabi.frame'' \<in> set (snd (draw sample_deps
      (sample_main\<lparr>background := Some ''wasabi.frame'', drawBackground := Some True\<rparr>) [])) \<and>
   Div_style_background ''url(wasabi.frame)'' \<in> set (snd (draw sample_deps
      (sample_main\<lparr>background := Some ''wasabi.frame'', drawBackground := Some True\<rparr>) [])) \<and>
   Call_getBitmap ''wasabi.frame'' \<notin> set (snd (draw sample_deps
      (sample_main\<lparr>background := Some ''wasabi.frame'', drawBackground := Some False\<rparr>) [])) \<and>
   Div_style_background ''url(wasabi.frame)'' \<notin> set (snd (draw sample_deps
      (sample_main\<lparr>background := Some ''wasabi.frame'', drawBackground := Some False\<rparr>) [])) \<and>
   background (fst (draw sample_deps
      (sample_main\<lparr>background := Some ''wasabi.frame'', drawBackground := Some False\<rparr>) []))
     = Some ''wasabi.frame'' \<and>
   Div_style_background ''url()'' \<notin> set (snd (draw sample_deps
      (sample_main\<lparr>drawBackground := Some True\<rparr>) []))"
proof -
  have n: "background sample_main = None"
    by (simp add: sample_main_def sample_group_def new_Group_def)
  have u: "getBackgrondCSSAttribute sample_deps (UI_ROOT_getBitmap sample_deps ''wasabi.frame'')
      = ''url(wasabi.frame)''"
    by (simp add: sample_deps_def)
  from draw_background_iff [of "''wasabi.frame''" sample_deps
      "sample_main\<lparr>background := Some ''wasabi.frame'', drawBackground := Some True\<rparr>"
      "''url(wasabi.frame)''" "[]"]
    draw_background_iff [of "''wasabi.frame''" sample_deps
      "sample_main\<lparr>background := Some ''wasabi.frame'', drawBackground := Some False\<rparr>"
      "''url(wasabi.frame)''" "[]"]
    draw_background_iff [of "''wasabi.frame''" sample_deps
      "sample_main\<lparr>drawBackground := Some True\<rparr>" "''url()''" "[]"]
    n u
  show ?thesis by simp
qed

subsection \<open>addSystemObject\<close>

text \<open>
  C9, as amended. After a system object has been attached to the container A and then
  to the container B, its parent is B, and it is in the list of system objects of B and
  still in that of A: attaching appends and nothing detaches. When A and B are two
  containers, each of the two lists is the list from before with the system object
  appended.
\<close>

theorem addSystemObject_twice:
  "parentGroup (sysobjs (addSystemObject B s (addSystemObject A s w)) s) = Some B \<and>
   s \<in> set (systemObjects (groups (addSystemObject B s (addSystemObject A s w)) B)) \<and>
   s \<in> set (systemObjects (groups (addSystemObject B s (addSystemObject A s w)) A)) \<and>
   (A \<noteq> B \<longrightarrow>
      systemObjects (groups (addSystemObject B s (addSystemObject A s w)) A)
        = systemObjects (groups w A) @ [s] \<and>
      systemObjects (groups (addSystemObject B s (addSystemObject A s w)) B)
        = systemObjects (groups w B) @ [s])"
  by (simp add: addSystemObject_def SystemObject_setParentGroup_def Let_def)

text \<open>
  On the sample skin: the system object at address 8 is attached to \<^verbatim>\<open>main\<close> and then
  to \<^verbatim>\<open>panel\<close>.
\<close>

theorem addSystemObject_twice_witness:
  "parentGroup (sysobjs (addSystemObject 7 8 (addSystemObject 6 8 sample_world)) 8) = Some 7 \<and>
   systemObjects (groups (addSystemObject 7 8 (addSystemObject 6 8 sample_world)) 6) = [8] \<and>
   systemObjects (groups (addSystemObject 7 8 (addSystemObject 6 8 sample_world)) 7) = [8]"
proof -
  have s: "systemObjects (groups sample_world 6) = []" "systemObjects (groups sample_world 7) = []"
    by (simp_all add: sample_world_def sample_main_def sample_panel_def sample_group_def
        new_Group_def)
  have d: "(6::nat) \<noteq> 7" by simp
  from addSystemObject_twice [of 7 8 6 sample_world] s d show ?thesis by simp
qed

text \<open>
  C9 as it is written fails: after the system object 8 has been attached to
  \<^verbatim>\<open>main\<close> (address 6) and then to \<^verbatim>\<open>panel\<close> (address 7), its parent is
  \<^verbatim>\<open>panel\<close>, and it is a member of the lists of both containers at once.
\<close>

theorem addSystemObject_both_lists_counterexample:
  "parentGroup (sysobjs (addSystemObject 7 8 (addSystemObject 6 8 sample_world)) 8) = Some 7 \<and>
   8 \<in> set (systemObjects (groups (addSystemObject 7 8 (addSystemObject 6 8 sample_world)) 6)) \<and>
   8 \<in> set (systemObjects (groups (addSystemObject 7 8 (addSystemObject 6 8 sample_world)) 7))"
  by (simp add: addSystemObject_def SystemObject_setParentGroup_def Let_def sample_world_def)

end
